theory Spec2Isabelle
  imports Complex_Main "HOL-Library.Multiset" "HOL-Library.Log_Nat"
begin

section \<open>World Trivia TV: retrieval handlers and playback state machine\<close>

text \<open>
  A shallow embedding of \<^verbatim>\<open>src/pages/index.tsx\<close>, which holds four modules: the
  selection screen \<^verbatim>\<open>Home\<close>, the API handler for \<^verbatim>\<open>country\<close>, the API handler for
  \<^verbatim>\<open>countries\<close>, and the playback screen \<^verbatim>\<open>Play\<close>.

  Conventions of the embedding:
  \<^item> JavaScript strings are \<open>string\<close>; only ASCII is modelled, so \<^verbatim>\<open>toLowerCase\<close> folds
    \<^verbatim>\<open>A\<close>-\<^verbatim>\<open>Z\<close> and leaves every other character alone.
  \<^item> A query parameter is a \<open>string option\<close> (\<open>None\<close> when the parameter is absent);
    the source casts each one \<^verbatim>\<open>as string\<close>, so repeated parameters (arrays) are outside
    the modelled type.
  \<^item> JavaScript numbers that hold array indices and countdown values are \<open>int\<close>.
  \<^item> \<^verbatim>\<open>Math.random()\<close> is a source \<open>rnd\<close> of draws: the \<open>k\<close>-th call returns \<open>rnd k\<close>,
    a double in \<open>[0, 1)\<close>, held as the rational it denotes; the product with \<open>i + 1\<close> is
    rounded to the nearest double, ties to even, as the multiplication of two Numbers is.
  \<^item> The bundled collection \<^verbatim>\<open>@/data/trivia.json\<close> is not part of the sources and is a
    parameter \<open>triviaData\<close> of both handlers.
  \<^item> Reading a field of \<^verbatim>\<open>undefined\<close> throws; functions that can do so return
    \<open>js_error + PlayState\<close>, with \<open>Inl TypeError\<close> for the throw.
  \<^item> The timer tick and the button handlers are events that happen one at a time; after
    each, the component is rendered and the effect whose dependencies changed runs.
\<close>

subsection \<open>Data model\<close>

record TriviaItem =
  country :: string
  period :: string
  question :: string
  answer :: string
  funFact :: "string option"

datatype ResponseData = Items "TriviaItem list" | Error string

text \<open>A response is the HTTP status with the JSON body.\<close>

type_synonym response = "nat \<times> ResponseData"

subsection \<open>Strings\<close>

definition lower_char :: "char \<Rightarrow> char" where
  "lower_char c =
     (case map_of (zip ''ABCDEFGHIJKLMNOPQRSTUVWXYZ'' ''abcdefghijklmnopqrstuvwxyz'') c of
        Some d \<Rightarrow> d
      | None \<Rightarrow> c)"

definition toLowerCase :: "string \<Rightarrow> string" where
  "toLowerCase s = map lower_char s"

text \<open>JavaScript truthiness of an optional string: \<^verbatim>\<open>undefined\<close> and \<^verbatim>\<open>""\<close> are falsy.\<close>

definition truthy :: "string option \<Rightarrow> bool" where
  "truthy p = (case p of None \<Rightarrow> False | Some s \<Rightarrow> s \<noteq> [])"

text \<open>\<^verbatim>\<open>s.split(',')\<close>: the pieces between commas, empty pieces kept.\<close>

fun split_acc :: "string \<Rightarrow> string \<Rightarrow> string list" where
  "split_acc cur [] = [rev cur]"
| "split_acc cur (c # cs) =
     (if c = CHR '','' then rev cur # split_acc [] cs else split_acc (c # cur) cs)"

definition split_comma :: "string \<Rightarrow> string list" where
  "split_comma s = split_acc [] s"

subsection \<open>shuffleArray\<close>

text \<open>
  Doubles. A finite double that is not negative is a multiple \<open>m * 2 ^ -1074\<close> whose integer
  \<open>m\<close> has at most 53 significant bits. \<open>round_sig p N\<close> rounds the integer \<open>N \<ge> 0\<close> to \<open>p\<close>
  significant bits: to the nearest such integer, and to the one with an even significand on a
  tie. \<open>bitlen N\<close> is the number of bits of \<open>N\<close>.
\<close>

definition precision :: nat where
  "precision = 53"

definition min_exp :: nat where
  "min_exp = 1074"

definition round_sig :: "nat \<Rightarrow> int \<Rightarrow> int" where
  "round_sig p N =
     (let s = nat (bitlen N - int p); a = N div 2 ^ s; b = N mod 2 ^ s
      in if s = 0 then N
         else if 2 ^ (s - 1) < b \<or> (b = 2 ^ (s - 1) \<and> odd a) then (a + 1) * 2 ^ s
         else a * 2 ^ s)"

text \<open>The draw \<open>r\<close> counted in units of \<open>2 ^ -1074\<close>.\<close>

definition ulps :: "rat \<Rightarrow> int" where
  "ulps r = \<lfloor>r * 2 ^ min_exp\<rfloor>"

text \<open>\<open>r\<close> is a double in \<open>[0, 1)\<close>: what \<^verbatim>\<open>Math.random()\<close> returns.\<close>

definition is_double01 :: "rat \<Rightarrow> bool" where
  "is_double01 r =
     (0 \<le> r \<and> r < 1 \<and> of_int (ulps r) = r * 2 ^ min_exp
      \<and> round_sig precision (ulps r) = ulps r)"

text \<open>
  \<^verbatim>\<open>Math.floor(r * (i + 1))\<close> for a draw \<open>r\<close>: the exact product, in units of \<open>2 ^ -1074\<close>, is
  rounded to a double and then cut to its integer part. The sum \<open>i + 1\<close> is exact, an array
  has fewer than \<open>2 ^ 32\<close> elements.
\<close>

definition random_index :: "rat \<Rightarrow> int \<Rightarrow> int" where
  "random_index r i = round_sig precision (ulps r * (i + 1)) div 2 ^ min_exp"

text \<open>
  \<^verbatim>\<open>[a[i], a[j]] = [a[j], a[i]]\<close>: both reads happen before the two writes, and the write
  to \<open>i\<close> comes first.
\<close>

definition swap :: "'a list \<Rightarrow> int \<Rightarrow> int \<Rightarrow> 'a list" where
  "swap a i j = a[nat i := a ! nat j, nat j := a ! nat i]"

text \<open>
  The \<^verbatim>\<open>for (let i = shuffled.length - 1; i > 0; i--)\<close> loop; \<open>k\<close> counts the calls of
  \<^verbatim>\<open>Math.random\<close> made so far.
\<close>

function shuffle_loop :: "(nat \<Rightarrow> rat) \<Rightarrow> nat \<Rightarrow> int \<Rightarrow> 'a list \<Rightarrow> 'a list" where
  "shuffle_loop rnd k i shuffled =
     (if i > 0
      then shuffle_loop rnd (k + 1) (i - 1) (swap shuffled i (random_index (rnd k) i))
      else shuffled)"
  by pat_completeness auto
termination
  by (relation "measure (\<lambda>(rnd, k, i, shuffled). nat i)") auto

declare shuffle_loop.simps [simp del]

definition shuffleArray :: "(nat \<Rightarrow> rat) \<Rightarrow> 'a list \<Rightarrow> 'a list" where
  "shuffleArray rnd array = shuffle_loop rnd 0 (int (length array) - 1) array"

text \<open>The contract of \<^verbatim>\<open>Math.random\<close>: every draw is a double in \<open>[0, 1)\<close>.\<close>

definition unit_draws :: "(nat \<Rightarrow> rat) \<Rightarrow> bool" where
  "unit_draws rnd = (\<forall>k. is_double01 (rnd k))"

subsection \<open>shuffleArray on an explicit store\<close>

text \<open>
  To speak about mutation and freshness the arrays live in a store: address \<open>a\<close> holds the
  array \<open>h ! a\<close>, and an allocation takes the next unused address. \<^verbatim>\<open>[...array]\<close> allocates
  a copy; every write of the loop goes to the copy's address.
\<close>

type_synonym 'a heap = "'a list list"

definition alloc :: "'a list \<Rightarrow> 'a heap \<Rightarrow> nat \<times> 'a heap" where
  "alloc xs h = (length h, h @ [xs])"

function shuffle_loop_heap :: "(nat \<Rightarrow> rat) \<Rightarrow> nat \<Rightarrow> int \<Rightarrow> nat \<Rightarrow> 'a heap \<Rightarrow> 'a heap" where
  "shuffle_loop_heap rnd k i shuffled h =
     (if i > 0
      then shuffle_loop_heap rnd (k + 1) (i - 1) shuffled
             (h[shuffled := swap (h ! shuffled) i (random_index (rnd k) i)])
      else h)"
  by pat_completeness auto
termination
  by (relation "measure (\<lambda>(rnd, k, i, shuffled, h). nat i)") auto

declare shuffle_loop_heap.simps [simp del]

definition shuffleArray_heap :: "(nat \<Rightarrow> rat) \<Rightarrow> nat \<Rightarrow> 'a heap \<Rightarrow> nat \<times> 'a heap" where
  "shuffleArray_heap rnd array h =
     (case alloc (h ! array) h of
        (shuffled, h1) \<Rightarrow>
          (shuffled, shuffle_loop_heap rnd 0 (int (length (h1 ! shuffled)) - 1) shuffled h1))"

subsection \<open>The retrieval handlers\<close>

record query =
  q_country :: "string option"
  q_countries :: "string option"
  q_period :: "string option"

text \<open>
  \<^verbatim>\<open>period && period !== 'any' && period.toLowerCase() !== 'any time'\<close>: whether the period
  filter is applied.
\<close>

definition period_filter_on :: "string option \<Rightarrow> bool" where
  "period_filter_on p =
     (case p of
        None \<Rightarrow> False
      | Some s \<Rightarrow> s \<noteq> [] \<and> s \<noteq> ''any'' \<and> toLowerCase s \<noteq> ''any time'')"

definition filter_period :: "string option \<Rightarrow> TriviaItem list \<Rightarrow> TriviaItem list" where
  "filter_period p filtered =
     (if period_filter_on p then filter (\<lambda>item. Some (period item) = p) filtered
      else filtered)"

text \<open>The handler of \<^verbatim>\<open>/api/trivia?country=...\<close>.\<close>

definition handler :: "TriviaItem list \<Rightarrow> (nat \<Rightarrow> rat) \<Rightarrow> query \<Rightarrow> response" where
  "handler triviaData rnd req =
     (case q_country req of
        None \<Rightarrow> (400, Error ''Country parameter is required'')
      | Some c \<Rightarrow>
          if c = [] then (400, Error ''Country parameter is required'')
          else
            let filtered = filter (\<lambda>item. toLowerCase (country item) = toLowerCase c) triviaData;
                filtered = filter_period (q_period req) filtered;
                shuffled = shuffleArray rnd filtered
            in (200, Items shuffled))"

text \<open>The variant that takes \<^verbatim>\<open>countries\<close>, a comma-separated list.\<close>

definition handler_countries :: "TriviaItem list \<Rightarrow> (nat \<Rightarrow> rat) \<Rightarrow> query \<Rightarrow> response" where
  "handler_countries triviaData rnd req =
     (case q_countries req of
        None \<Rightarrow> (400, Error ''Countries parameter is required'')
      | Some cs \<Rightarrow>
          if cs = [] then (400, Error ''Countries parameter is required'')
          else
            let countryList = split_comma cs;
                filtered = filter (\<lambda>item. list_ex (\<lambda>c. toLowerCase (country item) = toLowerCase c)
                                             countryList) triviaData;
                filtered = filter_period (q_period req) filtered;
                shuffled = shuffleArray rnd filtered
            in (200, Items shuffled))"

subsection \<open>The playback screen: state\<close>

text \<open>
  The \<^verbatim>\<open>useState\<close> cells of \<^verbatim>\<open>Play\<close> (the two display preferences \<^verbatim>\<open>highContrast\<close> and
  \<^verbatim>\<open>largeText\<close> are left out: no handler below reads them). \<open>spoken\<close> is not a cell of the
  component: it records the texts passed to \<^verbatim>\<open>speak\<close>, oldest first, in a browser that has
  \<^verbatim>\<open>speechSynthesis\<close>.
\<close>

record PlayState =
  triviaItems :: "TriviaItem list"
  currentIndex :: int
  showAnswer :: bool
  loading :: bool
  error :: string
  isPaused :: bool
  hasEnded :: bool
  countdown :: int
  spoken :: "string list"

datatype js_error = TypeError

definition initial :: PlayState where
  "initial = \<lparr>triviaItems = [], currentIndex = 0, showAnswer = False, loading = True,
              error = [], isPaused = False, hasEnded = False, countdown = 8, spoken = []\<rparr>"

definition speak :: "string \<Rightarrow> PlayState \<Rightarrow> PlayState" where
  "speak t s = s\<lparr>spoken := spoken s @ [t]\<rparr>"

text \<open>\<^verbatim>\<open>xs[i]\<close>: \<open>None\<close> stands for \<^verbatim>\<open>undefined\<close>, and reading a field of it throws.\<close>

definition item_at :: "'a list \<Rightarrow> int \<Rightarrow> 'a option" where
  "item_at xs i = (if 0 \<le> i \<and> i < int (length xs) then Some (xs ! nat i) else None)"

definition answerText :: "TriviaItem \<Rightarrow> string" where
  "answerText currentItem =
     (case funFact currentItem of
        None \<Rightarrow> ''The answer is: '' @ answer currentItem
      | Some f \<Rightarrow>
          if f \<noteq> [] then ''The answer is: '' @ answer currentItem @ ''. '' @ f
          else ''The answer is: '' @ answer currentItem)"

definition repeatText :: "TriviaItem \<Rightarrow> string" where
  "repeatText currentItem =
     (case funFact currentItem of
        None \<Rightarrow> question currentItem @ ''. The answer is: '' @ answer currentItem
      | Some f \<Rightarrow>
          if f \<noteq> [] then question currentItem @ ''. The answer is: '' @ answer currentItem @ ''. '' @ f
          else question currentItem @ ''. The answer is: '' @ answer currentItem)"

subsection \<open>The playback screen: timer\<close>

text \<open>The guard of the timer effect: an interval exists only when this holds.\<close>

definition timerRunning :: "PlayState \<Rightarrow> bool" where
  "timerRunning s =
     (\<not> (loading s \<or> error s \<noteq> [] \<or> triviaItems s = [] \<or> isPaused s \<or> hasEnded s))"

text \<open>
  One call of the interval callback, that is the updater given to \<^verbatim>\<open>setCountdown\<close> together
  with the setters it calls. \<^verbatim>\<open>currentItem\<close> is \<^verbatim>\<open>triviaItems[currentIndex]\<close> as the effect
  captured it.
\<close>

definition tick :: "PlayState \<Rightarrow> js_error + PlayState" where
  "tick s =
     (if countdown s \<le> 1 then
        (if \<not> showAnswer s then
           (case item_at (triviaItems s) (currentIndex s) of
              None \<Rightarrow> Inl TypeError
            | Some currentItem \<Rightarrow>
                Inr (speak (answerText currentItem) (s\<lparr>showAnswer := True, countdown := 6\<rparr>)))
         else if currentIndex s < int (length (triviaItems s)) - 1 then
           Inr (s\<lparr>currentIndex := currentIndex s + 1, showAnswer := False, countdown := 8\<rparr>)
         else
           Inr (speak ''Trivia has finished. You can replay from the beginning or go back to the menu.''
                  (s\<lparr>hasEnded := True, countdown := 0\<rparr>)))
      else Inr (s\<lparr>countdown := countdown s - 1\<rparr>))"

subsection \<open>The playback screen: the effect that speaks the question\<close>

text \<open>The dependency array of the effect.\<close>

definition questionDeps :: "PlayState \<Rightarrow> int \<times> TriviaItem list \<times> bool \<times> string \<times> bool \<times> bool \<times> bool" where
  "questionDeps s =
     (currentIndex s, triviaItems s, loading s, error s, isPaused s, hasEnded s, showAnswer s)"

text \<open>
  The effect after a render that took the state from \<open>prev\<close> to \<open>s\<close>: it runs when a
  dependency changed.
\<close>

definition speakQuestionEffect :: "PlayState \<Rightarrow> PlayState \<Rightarrow> js_error + PlayState" where
  "speakQuestionEffect prev s =
     (if questionDeps prev = questionDeps s then Inr s
      else if \<not> loading s \<and> error s = [] \<and> triviaItems s \<noteq> [] \<and> \<not> isPaused s
              \<and> \<not> hasEnded s \<and> \<not> showAnswer s then
        (case item_at (triviaItems s) (currentIndex s) of
           None \<Rightarrow> Inl TypeError
         | Some currentItem \<Rightarrow> Inr ((speak (question currentItem) s)\<lparr>countdown := 8\<rparr>))
      else Inr s)"

subsection \<open>The playback screen: handlers\<close>

definition handlePausePlay :: "PlayState \<Rightarrow> PlayState" where
  "handlePausePlay s =
     (if isPaused s then speak ''Resuming trivia'' s else speak ''Paused'' s)
       \<lparr>isPaused := \<not> isPaused s\<rparr>"

definition handleRepeat :: "PlayState \<Rightarrow> js_error + PlayState" where
  "handleRepeat s =
     (if triviaItems s = [] then Inr s
      else
        (case item_at (triviaItems s) (currentIndex s) of
           None \<Rightarrow> Inl TypeError
         | Some currentItem \<Rightarrow>
             if showAnswer s then Inr (speak (repeatText currentItem) s)
             else Inr (speak (question currentItem) s)))"

definition handleNextQuestion :: "PlayState \<Rightarrow> PlayState" where
  "handleNextQuestion s =
     (if currentIndex s < int (length (triviaItems s)) - 1 then
        speak ''Moving to next question''
          (s\<lparr>currentIndex := currentIndex s + 1, showAnswer := False, countdown := 8\<rparr>)
      else
        speak ''That was the last question. Trivia has finished.'' (s\<lparr>hasEnded := True\<rparr>))"

definition handleReplay :: "PlayState \<Rightarrow> PlayState" where
  "handleReplay s =
     speak ''Restarting trivia from the beginning''
       (s\<lparr>currentIndex := 0, showAnswer := False, hasEnded := False, isPaused := False,
          countdown := 8\<rparr>)"

subsection \<open>The playback screen: what is rendered, and events\<close>

datatype screen = LoadingScreen | ErrorScreen | FinishedScreen | PlayingScreen

definition screen :: "PlayState \<Rightarrow> screen" where
  "screen s =
     (if loading s then LoadingScreen
      else if error s \<noteq> [] then ErrorScreen
      else if hasEnded s then FinishedScreen
      else PlayingScreen)"

text \<open>
  The render itself: the playing screen reads \<^verbatim>\<open>currentItem.question\<close>, which throws when
  \<^verbatim>\<open>triviaItems[currentIndex]\<close> is \<^verbatim>\<open>undefined\<close>.
\<close>

definition render :: "PlayState \<Rightarrow> js_error + screen" where
  "render s =
     (if screen s = PlayingScreen then
        (case item_at (triviaItems s) (currentIndex s) of
           None \<Rightarrow> Inl TypeError
         | Some currentItem \<Rightarrow> Inr PlayingScreen)
      else Inr (screen s))"

datatype event = Tick | PausePlay | Repeat | NextQuestion | Replay

text \<open>
  A tick can happen only while the interval exists; the Pause, Repeat and Next buttons are on
  the playing screen, the Replay button on the finished screen.
\<close>

definition enabled :: "PlayState \<Rightarrow> event \<Rightarrow> bool" where
  "enabled s e =
     (case e of
        Tick \<Rightarrow> timerRunning s
      | Replay \<Rightarrow> screen s = FinishedScreen
      | _ \<Rightarrow> screen s = PlayingScreen)"

definition dispatch :: "event \<Rightarrow> PlayState \<Rightarrow> js_error + PlayState" where
  "dispatch e s =
     (case e of
        Tick \<Rightarrow> tick s
      | PausePlay \<Rightarrow> Inr (handlePausePlay s)
      | Repeat \<Rightarrow> handleRepeat s
      | NextQuestion \<Rightarrow> Inr (handleNextQuestion s)
      | Replay \<Rightarrow> Inr (handleReplay s))"

text \<open>
  One event: the handler, then the render of the new state, then the effect of that render.
\<close>

definition step :: "PlayState \<Rightarrow> event \<Rightarrow> js_error + PlayState" where
  "step s e =
     (if enabled s e then
        (case dispatch e s of
           Inl x \<Rightarrow> Inl x
         | Inr s' \<Rightarrow>
             (case render s' of
                Inl x \<Rightarrow> Inl x
              | Inr v \<Rightarrow> speakQuestionEffect s s'))
      else Inr s)"

fun run :: "PlayState \<Rightarrow> event list \<Rightarrow> js_error + PlayState" where
  "run s [] = Inr s"
| "run s (e # es) = (case step s e of Inl x \<Rightarrow> Inl x | Inr s' \<Rightarrow> run s' es)"

text \<open>The fields the specification calls the playback state.\<close>

definition playback :: "PlayState \<Rightarrow> TriviaItem list \<times> int \<times> bool \<times> bool \<times> bool \<times> int" where
  "playback s = (triviaItems s, currentIndex s, showAnswer s, isPaused s, hasEnded s, countdown s)"

subsection \<open>The playback screen: loading the items\<close>

text \<open>
  \<^verbatim>\<open>parseInt(str)\<close> with no radix, after ECMAScript: leading white space is skipped, a sign
  is read, a \<^verbatim>\<open>0x\<close> prefix selects radix 16, and the longest run of digits is converted;
  \<open>None\<close> stands for \<^verbatim>\<open>NaN\<close>. The result is exact here, a JavaScript number is exact up
  to \<open>2 ^ 53\<close>.
\<close>

definition is_space :: "char \<Rightarrow> bool" where
  "is_space c = (c \<in> set [CHR '' '', CHR 0x09, CHR 0x0A, CHR 0x0B, CHR 0x0C, CHR 0x0D])"

definition digit_value :: "char \<Rightarrow> nat option" where
  "digit_value c =
     map_of (zip ''0123456789abcdefABCDEF''
               [0, 1, 2, 3, 4, 5, 6, 7, 8, 9, 10, 11, 12, 13, 14, 15, 10, 11, 12, 13, 14, 15]) c"

definition is_digit :: "nat \<Rightarrow> char \<Rightarrow> bool" where
  "is_digit radix c = (case digit_value c of None \<Rightarrow> False | Some d \<Rightarrow> d < radix)"

definition digits_value :: "nat \<Rightarrow> string \<Rightarrow> nat" where
  "digits_value radix z = foldl (\<lambda>acc c. acc * radix + (case digit_value c of None \<Rightarrow> 0 | Some d \<Rightarrow> d)) 0 z"

definition parseInt :: "string \<Rightarrow> int option" where
  "parseInt str =
     (let s = dropWhile is_space str;
          sign = (if take 1 s = ''-'' then - 1 else 1 :: int);
          s = (if take 1 s = ''-'' \<or> take 1 s = ''+'' then drop 1 s else s);
          radix = (if take 2 s = ''0x'' \<or> take 2 s = ''0X'' then 16 else 10 :: nat);
          s = (if take 2 s = ''0x'' \<or> take 2 s = ''0X'' then drop 2 s else s);
          z = takeWhile (is_digit radix) s
      in if z = [] then None else Some (sign * int (digits_value radix z)))"

text \<open>
  \<^verbatim>\<open>xs.slice(0, end)\<close>: \<^verbatim>\<open>NaN\<close> counts as 0, and a negative end counts from the back.
\<close>

definition slice0 :: "'a list \<Rightarrow> int option \<Rightarrow> 'a list" where
  "slice0 xs e =
     (case e of
        None \<Rightarrow> []
      | Some n \<Rightarrow> if n < 0 then take (nat (int (length xs) + n)) xs else take (nat n) xs)"

text \<open>A natural number in a template literal.\<close>

fun show_nat :: "nat \<Rightarrow> string" where
  "show_nat n =
     (if n < 10 then [''0123456789'' ! n]
      else show_nat (n div 10) @ [''0123456789'' ! (n mod 10)])"

declare show_nat.simps [simp del]

text \<open>
  What \<^verbatim>\<open>await fetch(...)\<close> followed by \<^verbatim>\<open>response.json()\<close> yields: a rejection, or the
  status with the parsed body.
\<close>

datatype fetched = Rejected | Response nat ResponseData

definition load_failed :: "PlayState \<Rightarrow> PlayState" where
  "load_failed s =
     speak ''Failed to load trivia. Please go back to the menu and try again.''
       (s\<lparr>error := ''Failed to load trivia. Please check your connection and try again.''\<rparr>)"

definition not_found_message :: string where
  "not_found_message =
     ''No trivia found for this selection. Please go back and try another combination.''"

text \<open>
  The body of \<^verbatim>\<open>fetchTrivia\<close> once the request has settled with \<open>r\<close>. Every throw inside the
  \<^verbatim>\<open>try\<close> (a response that is not ok, a body without \<^verbatim>\<open>items\<close>) ends in the \<^verbatim>\<open>catch\<close>.
\<close>

definition fetchTrivia :: "string \<Rightarrow> string option \<Rightarrow> fetched \<Rightarrow> PlayState \<Rightarrow> PlayState" where
  "fetchTrivia qcountry qcount r s =
     (let s = s\<lparr>loading := True\<rparr>;
          s =
            (case r of
               Rejected \<Rightarrow> load_failed s
             | Response status data \<Rightarrow>
                 if \<not> (200 \<le> status \<and> status \<le> 299) then load_failed s
                 else
                   (case data of
                      Error e \<Rightarrow> load_failed s
                    | Items items \<Rightarrow>
                        if items = [] then speak not_found_message (s\<lparr>error := not_found_message\<rparr>)
                        else
                          let requestedCount = (if truthy qcount then parseInt (the qcount) else Some 10);
                              limitedItems = slice0 items requestedCount
                          in speak (''Starting trivia for '' @ qcountry @ '' with ''
                                      @ show_nat (length limitedItems)
                                      @ '' questions. Get ready for your first question.'')
                               (s\<lparr>triviaItems := limitedItems\<rparr>)))
      in s\<lparr>loading := False\<rparr>)"

text \<open>
  The first effect of \<^verbatim>\<open>Play\<close> on a fresh component: nothing happens until \<^verbatim>\<open>country\<close> and
  \<^verbatim>\<open>period\<close> are present; otherwise the items are fetched, the new state is rendered, and the
  question effect runs.
\<close>

definition mount :: "string option \<Rightarrow> string option \<Rightarrow> string option \<Rightarrow> fetched \<Rightarrow> js_error + PlayState" where
  "mount qcountry qperiod qcount r =
     (if \<not> truthy qcountry \<or> \<not> truthy qperiod then Inr initial
      else
        let s = fetchTrivia (the qcountry) qcount r initial
        in (case render s of
              Inl x \<Rightarrow> Inl x
            | Inr v \<Rightarrow> speakQuestionEffect initial s))"

subsection \<open>Well-formed playback states\<close>

text \<open>
  The states of a playback over a non-empty list: the index is inside the list, the countdown
  is not negative, and it is at least 1 until the playback has ended.
\<close>

definition playing_inv :: "PlayState \<Rightarrow> bool" where
  "playing_inv s =
     (triviaItems s \<noteq> [] \<and> \<not> loading s \<and> error s = []
      \<and> 0 \<le> currentIndex s \<and> currentIndex s < int (length (triviaItems s))
      \<and> 0 \<le> countdown s \<and> (hasEnded s \<or> 1 \<le> countdown s))"



text \<open>\<open>n\<close> ticks in a row.\<close>

definition ticks :: "nat \<Rightarrow> PlayState \<Rightarrow> js_error + PlayState" where
  "ticks n s = run s (replicate n Tick)"

subsection \<open>Notions used to state the properties\<close>

text \<open>
  The selection as the specification words it, for comparison with the handlers: the country
  equals one of the requested ones up to case, and the period equals the requested one unless
  the period is absent or is \<^verbatim>\<open>any\<close> or \<^verbatim>\<open>any time\<close> up to case.
\<close>

definition claimed_period_unfiltered :: "string option \<Rightarrow> bool" where
  "claimed_period_unfiltered p =
     (case p of
        None \<Rightarrow> True
      | Some s \<Rightarrow> toLowerCase s = ''any'' \<or> toLowerCase s = ''any time'')"

definition claimed_select :: "TriviaItem list \<Rightarrow> string list \<Rightarrow> string option \<Rightarrow> TriviaItem list" where
  "claimed_select triviaData cs p =
     filter (\<lambda>item. list_ex (\<lambda>c. toLowerCase (country item) = toLowerCase c) cs
                    \<and> (claimed_period_unfiltered p \<or> Some (period item) = p)) triviaData"

text \<open>
  The same with the sentinel as the handlers test it: the period is absent or empty, is
  \<^verbatim>\<open>any\<close> letter for letter, or is \<^verbatim>\<open>any time\<close> up to case.
\<close>

definition period_unfiltered :: "string option \<Rightarrow> bool" where
  "period_unfiltered p =
     (case p of
        None \<Rightarrow> True
      | Some s \<Rightarrow> s = [] \<or> s = ''any'' \<or> toLowerCase s = ''any time'')"

definition select_items :: "TriviaItem list \<Rightarrow> string list \<Rightarrow> string option \<Rightarrow> TriviaItem list" where
  "select_items triviaData cs p =
     filter (\<lambda>item. list_ex (\<lambda>c. toLowerCase (country item) = toLowerCase c) cs
                    \<and> (period_unfiltered p \<or> Some (period item) = p)) triviaData"

text \<open>The transition the timer makes from \<open>s\<close> at the tick on which the countdown expires.\<close>

definition expiry :: "PlayState \<Rightarrow> js_error + PlayState" where
  "expiry s = tick (s\<lparr>countdown := 1\<rparr>)"

text \<open>The state in which a playback begins, after the load and after a replay.\<close>

definition fresh_start :: "PlayState \<Rightarrow> bool" where
  "fresh_start s =
     (playing_inv s \<and> currentIndex s = 0 \<and> \<not> showAnswer s \<and> countdown s = 8
      \<and> \<not> isPaused s \<and> \<not> hasEnded s)"


subsection \<open>Sample data for the closed instances\<close>

definition usa_item :: TriviaItem where
  "usa_item = \<lparr>country = ''USA'', period = ''1960-1979'',
                question = ''Who was the first person on the Moon?'',
                answer = ''Neil Armstrong'', funFact = Some ''It happened in 1969.''\<rparr>"

definition nigeria_item :: TriviaItem where
  "nigeria_item = \<lparr>country = ''Nigeria'', period = ''1980-1999'',
                    question = ''Which city became the capital in 1991?'',
                    answer = ''Abuja'', funFact = None\<rparr>"

definition sample_state :: PlayState where
  "sample_state = \<lparr>triviaItems = [usa_item, nigeria_item], currentIndex = 0, showAnswer = False,
                    loading = False, error = [], isPaused = False, hasEnded = False,
                    countdown = 8, spoken = []\<rparr>"

section \<open>Properties of the retrieval\<close>

subsection \<open>shuffleArray\<close>


subsubsection \<open>Rounding to a double\<close>

lemma round_sig_cases:
  "round_sig p N = N div 2 ^ nat (bitlen N - int p) * 2 ^ nat (bitlen N - int p)
   \<or> (round_sig p N
        = N div 2 ^ nat (bitlen N - int p) * 2 ^ nat (bitlen N - int p)
          + 2 ^ nat (bitlen N - int p)
      \<and> 2 ^ nat (bitlen N - int p) \<le> 2 * (N mod 2 ^ nat (bitlen N - int p)))"
proof -
  define s where "s = nat (bitlen N - int p)"
  define a where "a = N div 2 ^ s"
  define b where "b = N mod 2 ^ s"
  have N: "N = a * 2 ^ s + b" by (simp only: a_def b_def div_mult_mod_eq)
  have "round_sig p N = a * 2 ^ s \<or> (round_sig p N = a * 2 ^ s + 2 ^ s \<and> 2 ^ s \<le> 2 * b)"
  proof (cases "s = 0")
    case True
    then have "round_sig p N = N" "b = 0"
      by (simp_all add: round_sig_def Let_def s_def[symmetric] b_def)
    with N show ?thesis by simp
  next
    case False
    then have h: "(2::int) ^ s = 2 * 2 ^ (s - 1)" by (cases s) simp_all
    show ?thesis
    proof (cases "2 ^ (s - 1) < b \<or> (b = 2 ^ (s - 1) \<and> odd a)")
      case True
      then have "round_sig p N = (a + 1) * 2 ^ s"
        using False by (simp add: round_sig_def Let_def s_def[symmetric] a_def b_def)
      then have "round_sig p N = a * 2 ^ s + 2 ^ s" by (simp add: algebra_simps)
      moreover from True h have "2 ^ s \<le> 2 * b" by auto
      ultimately show ?thesis by blast
    next
      case F2: False
      then have "round_sig p N = a * 2 ^ s"
        using False by (simp add: round_sig_def Let_def s_def[symmetric] a_def b_def)
      then show ?thesis by blast
    qed
  qed
  then show ?thesis by (simp only: s_def a_def b_def)
qed

lemma round_sig_lower:
  "N div 2 ^ nat (bitlen N - int p) * 2 ^ nat (bitlen N - int p) \<le> round_sig p N"
  using round_sig_cases[of p N] by auto

lemma round_sig_upper: "2 * round_sig p N \<le> 2 * N + 2 ^ nat (bitlen N - int p)"
proof -
  define s where "s = nat (bitlen N - int p)"
  define A where "A = N div 2 ^ s * 2 ^ s"
  define b where "b = N mod 2 ^ s"
  have N: "N = A + b" by (simp only: A_def b_def div_mult_mod_eq)
  have b0: "0 \<le> b" by (simp add: b_def)
  have "round_sig p N = A \<or> (round_sig p N = A + 2 ^ s \<and> 2 ^ s \<le> 2 * b)"
    using round_sig_cases[of p N] by (simp only: s_def A_def b_def)
  then have "2 * round_sig p N \<le> 2 * N + 2 ^ s"
  proof
    assume "round_sig p N = A"
    with N b0 show ?thesis by simp
  next
    assume "round_sig p N = A + 2 ^ s \<and> 2 ^ s \<le> 2 * b"
    with N show ?thesis by linarith
  qed
  then show ?thesis by (simp only: s_def)
qed

lemma round_sig_fixed_dvd:
  assumes "round_sig p m = m"
  shows "2 ^ nat (bitlen m - int p) dvd m"
proof -
  define s where "s = nat (bitlen m - int p)"
  define A where "A = m div 2 ^ s * 2 ^ s"
  define b where "b = m mod 2 ^ s"
  have N: "m = A + b" by (simp only: A_def b_def div_mult_mod_eq)
  have bl: "b < 2 ^ s" by (simp add: b_def)
  have "round_sig p m = A \<or> (round_sig p m = A + 2 ^ s \<and> 2 ^ s \<le> 2 * b)"
    using round_sig_cases[of p m] by (simp only: s_def A_def b_def)
  then have "m = A"
  proof
    assume "round_sig p m = A"
    with assms show ?thesis by simp
  next
    assume "round_sig p m = A + 2 ^ s \<and> 2 ^ s \<le> 2 * b"
    with assms N bl show ?thesis by linarith
  qed
  then have "2 ^ s dvd m" by (metis A_def dvd_triv_right)
  then show ?thesis by (simp only: s_def)
qed

lemma round_sig_exact:
  assumes "2 ^ nat (bitlen N - int p) dvd N"
  shows "round_sig p N = N"
proof -
  define s where "s = nat (bitlen N - int p)"
  from assms have b: "N mod 2 ^ s = 0" by (simp add: s_def)
  then have a: "N div 2 ^ s * 2 ^ s = N" using assms s_def by simp
  show ?thesis
    using a b by (simp add: round_sig_def Let_def s_def[symmetric])
qed

lemma mult_pow_gap:
  assumes "(2::int) ^ k dvd m" "m < 2 ^ E" "k \<le> E"
  shows "m + 2 ^ k \<le> 2 ^ E"
proof -
  from assms(1) obtain c where c: "m = 2 ^ k * c" by (auto simp: dvd_def)
  have e: "(2::int) ^ E = 2 ^ k * 2 ^ (E - k)" using assms(3) by (simp flip: power_add)
  from assms(2) c e have "c < 2 ^ (E - k)" by simp
  then have "c + 1 \<le> 2 ^ (E - k)" by simp
  then have "2 ^ k * (c + 1) \<le> (2::int) ^ k * 2 ^ (E - k)" by (intro mult_left_mono) simp_all
  with c e show ?thesis by (simp add: algebra_simps)
qed

lemma representable_gap:
  assumes "round_sig p m = m" "m < 2 ^ E" "1 \<le> p" "p \<le> E"
  shows "m + 2 ^ (E - p) \<le> 2 ^ E"
proof (cases "bitlen m = int E")
  case True
  then have "nat (bitlen m - int p) = E - p" using assms(4) by simp
  with round_sig_fixed_dvd[OF assms(1)] have "2 ^ (E - p) dvd m" by simp
  from mult_pow_gap[OF this assms(2)] show ?thesis by simp
next
  case False
  have "bitlen m \<le> int E" using assms(2) by (simp add: bitlen_le_iff_power)
  with False have "bitlen m \<le> int (E - 1)" using assms(3,4) by simp
  then have m: "m < 2 ^ (E - 1)" by (simp add: bitlen_le_iff_power)
  have "(2::int) ^ (E - p) \<le> 2 ^ (E - 1)" using assms(3) by (intro power_increasing) simp_all
  moreover have "(2::int) ^ E = 2 ^ (E - 1) + 2 ^ (E - 1)"
    using assms(3,4) by (cases E) simp_all
  ultimately show ?thesis using m by linarith
qed

lemma round_sig_product_less:
  assumes "round_sig p m = m" "0 \<le> m" "m < 2 ^ E" "1 \<le> p" "p \<le> E" "1 \<le> n"
  shows "round_sig p (m * n) < n * 2 ^ E"
proof -
  define N where "N = m * n"
  define s where "s = nat (bitlen N - int p)"
  define l where "l = nat (bitlen n - 1)"
  define G where "G = (2::int) ^ (E - p)"
  have g: "N + n * G \<le> n * 2 ^ E"
  proof -
    have "n * (m + 2 ^ (E - p)) \<le> n * 2 ^ E"
      using representable_gap[OF assms(1,3,4,5)] assms(6) by (intro mult_left_mono) simp_all
    then show ?thesis by (simp add: N_def G_def algebra_simps)
  qed
  have n0: "0 < n" using assms(6) by simp
  have b1: "1 \<le> bitlen n" using n0 by (simp add: bitlen_alt_def)
  have l1: "nat (bitlen n) = Suc l" using b1 by (simp add: l_def)
  have lb: "2 ^ l \<le> n" "n < 2 * 2 ^ l"
    using bitlen_bounds[OF n0] l1 by (simp_all add: l_def)
  have Nl: "N < n * 2 ^ E" using assms(3) n0 by (simp add: N_def)
  have u: "2 * round_sig p N \<le> 2 * N + 2 ^ s" unfolding s_def by (rule round_sig_upper)
  have G0: "0 < G" by (simp add: G_def)
  have "(2::int) ^ s < 2 * (n * G)"
  proof (cases "n = 2 ^ l")
    case True
    with Nl have "N < 2 ^ (l + E)" by (simp add: power_add)
    then have "bitlen N \<le> int (l + E)" by (simp only: bitlen_le_iff_power nat_int) simp
    then have "s \<le> l + (E - p)" using assms(5) by (simp add: s_def)
    then have "(2::int) ^ s \<le> 2 ^ (l + (E - p))" by (intro power_increasing) simp_all
    also have "\<dots> = n * G" using True by (simp add: power_add G_def)
    also have "\<dots> < 2 * (n * G)" using n0 G0 by simp
    finally show ?thesis .
  next
    case False
    with lb(1) have nl: "2 ^ l < n" by simp
    have "n * 2 ^ E < (2 * 2 ^ l) * (2::int) ^ E" using lb(2) by (intro mult_strict_right_mono) simp_all
    with Nl have "N < (2 * 2 ^ l) * 2 ^ E" by (rule less_trans)
    then have "N < 2 ^ (Suc l + E)" by (simp add: power_add)
    then have "bitlen N \<le> int (Suc l + E)" by (simp only: bitlen_le_iff_power nat_int) simp
    then have "s \<le> Suc l + (E - p)" using assms(5) by (simp add: s_def)
    then have "(2::int) ^ s \<le> 2 ^ (Suc l + (E - p))" by (intro power_increasing) simp_all
    also have "\<dots> = 2 * (2 ^ l * G)" by (simp add: power_add G_def)
    also have "\<dots> < 2 * (n * G)" using nl G0 by simp
    finally show ?thesis .
  qed
  with u g have "2 * round_sig p N < 2 * (n * 2 ^ E)" by linarith
  then show ?thesis by (simp add: N_def)
qed


subsubsection \<open>The chosen index\<close>

lemma ulps_bounds:
  assumes "is_double01 r"
  shows "0 \<le> ulps r" "ulps r < 2 ^ min_exp" "round_sig precision (ulps r) = ulps r"
    "r = of_int (ulps r) / 2 ^ min_exp"
proof -
  from assms have r: "0 \<le> r" "r < 1" and e: "of_int (ulps r) = r * 2 ^ min_exp"
    and f: "round_sig precision (ulps r) = ulps r"
    by (simp_all add: is_double01_def)
  have "0 \<le> r * 2 ^ min_exp" using r(1) by simp
  then show "0 \<le> ulps r" by (simp add: ulps_def)
  have "r * 2 ^ min_exp < 1 * 2 ^ min_exp" using r(2) by (intro mult_strict_right_mono) simp_all
  with e have "(of_int (ulps r) :: rat) < of_int (2 ^ min_exp)" by simp
  then show "ulps r < 2 ^ min_exp" by (simp only: of_int_less_iff)
  show "round_sig precision (ulps r) = ulps r" by (rule f)
  show "r = of_int (ulps r) / 2 ^ min_exp" using e by simp
qed

lemma div_less_of_less_mult:
  assumes "(x::int) < n * P" "0 < P"
  shows "x div P < n"
proof (rule ccontr)
  assume "\<not> x div P < n"
  then have "n \<le> x div P" by simp
  then have "n * P \<le> x div P * P" using assms(2) by (intro mult_right_mono) simp_all
  moreover have "x div P * P + x mod P = x" by (rule div_mult_mod_eq)
  moreover have "0 \<le> x mod P" using assms(2) by simp
  ultimately show False using assms(1) by linarith
qed

lemma random_index_range:
  assumes "is_double01 r" "0 \<le> i"
  shows "0 \<le> random_index r i \<and> random_index r i \<le> i"
proof -
  note u = ulps_bounds[OF assms(1)]
  have p: "1 \<le> precision" "precision \<le> min_exp" by (simp_all add: precision_def min_exp_def)
  have n: "1 \<le> i + 1" using assms(2) by simp
  have "round_sig precision (ulps r * (i + 1)) < (i + 1) * 2 ^ min_exp"
    using u(3,1,2) p n by (rule round_sig_product_less)
  then have hi: "random_index r i < i + 1"
    unfolding random_index_def by (rule div_less_of_less_mult) simp
  have N0: "0 \<le> ulps r * (i + 1)" using u(1) assms(2) by simp
  let ?s = "nat (bitlen (ulps r * (i + 1)) - int precision)"
  have "0 \<le> ulps r * (i + 1) div 2 ^ ?s * 2 ^ ?s"
    using N0 by (simp add: pos_imp_zdiv_nonneg_iff)
  also have "\<dots> \<le> round_sig precision (ulps r * (i + 1))" by (rule round_sig_lower)
  finally have "0 \<le> random_index r i"
    unfolding random_index_def by (simp add: pos_imp_zdiv_nonneg_iff)
  with hi show ?thesis by simp
qed


lemma ulps_dyadic:
  assumes "k \<le> min_exp"
  shows "ulps (of_int a / 2 ^ k) = a * 2 ^ (min_exp - k)"
    and "of_int (ulps (of_int a / 2 ^ k)) = (of_int a / 2 ^ k :: rat) * 2 ^ min_exp"
proof -
  have e: "(2::rat) ^ min_exp = 2 ^ k * 2 ^ (min_exp - k)"
    using assms by (simp flip: power_add)
  have "(of_int a / 2 ^ k :: rat) * 2 ^ min_exp = of_int (a * 2 ^ (min_exp - k))"
    by (simp add: e)
  then show "ulps (of_int a / 2 ^ k) = a * 2 ^ (min_exp - k)"
    and "of_int (ulps (of_int a / 2 ^ k)) = (of_int a / 2 ^ k :: rat) * 2 ^ min_exp"
    unfolding ulps_def by (simp_all only: floor_of_int)
qed

lemma round_sig_short:
  assumes "0 \<le> a" "a < 2 ^ p"
  shows "round_sig p (a * 2 ^ e) = a * 2 ^ e"
proof (cases "a = 0")
  case True
  then show ?thesis by (simp add: round_sig_def)
next
  case False
  with assms(1) have a: "0 < a" by simp
  have "bitlen a \<le> int p" using assms(2) by (simp only: bitlen_le_iff_power nat_int) simp
  then have "nat (bitlen (a * 2 ^ e) - int p) \<le> e" using a by simp
  then have "(2::int) ^ nat (bitlen (a * 2 ^ e) - int p) dvd 2 ^ e" by (rule le_imp_power_dvd)
  then have "2 ^ nat (bitlen (a * 2 ^ e) - int p) dvd a * 2 ^ e" by (rule dvd_mult)
  then show ?thesis by (rule round_sig_exact)
qed

lemma is_double01_dyadic:
  assumes "0 \<le> a" "a < 2 ^ k" "a < 2 ^ precision" "k \<le> min_exp"
  shows "is_double01 (of_int a / 2 ^ k)"
proof -
  have "(of_int a :: rat) < of_int (2 ^ k)" using assms(2) by (simp only: of_int_less_iff)
  then have "(of_int a / 2 ^ k :: rat) < 1" by simp
  moreover have "0 \<le> (of_int a / 2 ^ k :: rat)" using assms(1) by simp
  ultimately show ?thesis
    unfolding is_double01_def
    using ulps_dyadic[OF assms(4), of a] round_sig_short[OF assms(1,3)] by simp
qed

lemma random_index_dyadic:
  assumes "0 \<le> a" "k \<le> min_exp" "0 \<le> i" "a * (i + 1) < 2 ^ precision"
  shows "random_index (of_int a / 2 ^ k) i = a * (i + 1) div 2 ^ k"
proof -
  have n: "0 \<le> a * (i + 1)" using assms(1,3) by simp
  have "ulps (of_int a / 2 ^ k) * (i + 1) = a * (i + 1) * 2 ^ (min_exp - k)"
    by (simp add: ulps_dyadic(1)[OF assms(2)] algebra_simps)
  then have "random_index (of_int a / 2 ^ k) i
           = a * (i + 1) * 2 ^ (min_exp - k) div 2 ^ min_exp"
    unfolding random_index_def by (simp only: round_sig_short[OF n assms(4)])
  also have "(2::int) ^ min_exp = 2 ^ k * 2 ^ (min_exp - k)"
    using assms(2) by (simp flip: power_add)
  also have "a * (i + 1) * 2 ^ (min_exp - k) div (2 ^ k * 2 ^ (min_exp - k))
           = a * (i + 1) div 2 ^ k" by simp
  finally show ?thesis .
qed

lemma is_double01_0: "is_double01 0"
  using is_double01_dyadic[of 0 0] by (simp add: precision_def)


lemma random_index_0: "0 \<le> i \<Longrightarrow> random_index 0 i = 0"
  using random_index_dyadic[of 0 0 i] by (simp add: precision_def)






subsubsection \<open>The loop\<close>

lemma length_swap: "length (swap a i j) = length a"
  by (simp add: swap_def)

lemma mset_swap_int:
  assumes "0 \<le> i" "i < int (length a)" "0 \<le> j" "j < int (length a)"
  shows "mset (swap a i j) = mset a"
proof -
  have "nat i < length a" "nat j < length a" using assms by auto
  then show ?thesis unfolding swap_def by (simp add: mset_swap)
qed

lemma shuffle_loop_perm:
  "unit_draws rnd \<Longrightarrow> i < int (length a) \<Longrightarrow>
   length (shuffle_loop rnd k i a) = length a \<and> mset (shuffle_loop rnd k i a) = mset a"
proof (induction rnd k i a rule: shuffle_loop.induct)
  case (1 rnd k i a)
  show ?case
  proof (cases "i > 0")
    case False
    then show ?thesis by (simp add: shuffle_loop.simps[of rnd k i a])
  next
    case True
    let ?j = "random_index (rnd k) i"
    let ?a = "swap a i ?j"
    from "1.prems"(1) have "is_double01 (rnd k)" by (simp add: unit_draws_def)
    with True have j: "0 \<le> ?j" "?j \<le> i" using random_index_range[of "rnd k" i] by auto
    have m: "mset ?a = mset a" using True j "1.prems"(2) by (intro mset_swap_int) auto
    have l: "length ?a = length a" by (rule length_swap)
    have "i - 1 < int (length ?a)" using "1.prems"(2) l by simp
    from "1.IH"[OF True "1.prems"(1) this] m l
    show ?thesis by (simp add: shuffle_loop.simps[of rnd k i a] True)
  qed
qed






lemma shuffle_loop_unfold:
  "0 < i \<Longrightarrow> shuffle_loop rnd k i a
     = shuffle_loop rnd (Suc k) (i - 1) (swap a i (random_index (rnd k) i))"
  "\<not> 0 < i \<Longrightarrow> shuffle_loop rnd k i a = a"
  by (simp_all add: shuffle_loop.simps[of rnd k i a])



lemma shuffle_loop_heap_eq:
  "shuffled < length h \<Longrightarrow>
   shuffle_loop_heap rnd k i shuffled h = h[shuffled := shuffle_loop rnd k i (h ! shuffled)]"
proof (induction rnd k i shuffled h rule: shuffle_loop_heap.induct)
  case (1 rnd k i shuffled h)
  show ?case
  proof (cases "i > 0")
    case False
    then show ?thesis
      by (simp add: shuffle_loop_heap.simps[of rnd k i shuffled h]
          shuffle_loop.simps[of rnd k i "h ! shuffled"])
  next
    case True
    let ?h = "h[shuffled := swap (h ! shuffled) i (random_index (rnd k) i)]"
    have "shuffled < length ?h" using "1.prems" by simp
    from "1.IH"[OF True this] "1.prems" True show ?thesis
      by (simp add: shuffle_loop_heap.simps[of rnd k i shuffled h]
          shuffle_loop.simps[of rnd k i "h ! shuffled"])
  qed
qed

lemma shuffleArray_heap_eq:
  "shuffleArray_heap rnd array h = (length h, h @ [shuffleArray rnd (h ! array)])"
  by (simp add: shuffleArray_heap_def alloc_def shuffle_loop_heap_eq shuffleArray_def)

text \<open>
  Claim C10. \<open>shuffleArray\<close> does not mutate its argument: on the store, the returned address
  is a new one (it was not allocated before the call and differs from the argument's), every
  array allocated before the call, the argument included, holds after the call what it held
  before, and the new array holds the shuffled elements.
\<close>

theorem shuffleArray_heap_fresh:
  assumes "array < length h"
  shows "case shuffleArray_heap rnd array h of
           (shuffled, h') \<Rightarrow>
             shuffled \<noteq> array \<and> shuffled = length h \<and> length h' = Suc (length h)
             \<and> take (length h) h' = h \<and> h' ! array = h ! array
             \<and> h' ! shuffled = shuffleArray rnd (h ! array)"
  using assms by (simp add: shuffleArray_heap_eq nth_append)

theorem shuffleArray_heap_fresh_witness:
  "(0 :: nat) < length [[1, 2, 3 :: nat]]
   \<and> shuffleArray_heap (\<lambda>k. 0) 0 [[1, 2, 3 :: nat]] = (1, [[1, 2, 3], [2, 3, 1]])"
proof -
  have e: "shuffleArray_heap (\<lambda>k. 0) 0 [[1, 2, 3 :: nat]] = (1, [[1, 2, 3], [2, 3, 1]])"
    by (simp add: shuffleArray_heap_eq shuffleArray_def shuffle_loop_unfold random_index_0
        swap_def)
  from e shuffleArray_heap_fresh[of 0 "[[1, 2, 3 :: nat]]" "\<lambda>k. 0"] show ?thesis by simp
qed

subsection \<open>The handlers\<close>

lemma shuffleArray_mset: "unit_draws rnd \<Longrightarrow> mset (shuffleArray rnd xs) = mset xs"
  unfolding shuffleArray_def by (simp add: shuffle_loop_perm)

lemma shuffleArray_Nil: "shuffleArray rnd [] = []"
  by (simp add: shuffleArray_def shuffle_loop.simps[of rnd 0 "- 1"])

lemma filter_period_select:
  "filter_period p (filter P xs) =
     filter (\<lambda>item. P item \<and> (period_unfiltered p \<or> Some (period item) = p)) xs"
  by (cases p) (auto simp: filter_period_def period_filter_on_def period_unfiltered_def
      intro: filter_cong)

lemma handler_select:
  assumes "q_country req = Some c" "c \<noteq> []"
  shows "handler triviaData rnd req
       = (200, Items (shuffleArray rnd (select_items triviaData [c] (q_period req))))"
  using assms by (simp add: handler_def Let_def filter_period_select select_items_def)

lemma handler_countries_select:
  assumes "q_countries req = Some cs" "cs \<noteq> []"
  shows "handler_countries triviaData rnd req
       = (200, Items (shuffleArray rnd (select_items triviaData (split_comma cs) (q_period req))))"
  using assms by (simp add: handler_countries_def Let_def filter_period_select select_items_def)

text \<open>
  Claim C4, as amended. For a present, non-empty country (or comma-separated countries)
  value and every source of double draws in \<open>[0, 1)\<close>, each handler answers 200 with exactly the
  selected items, in some order: the items whose country equals the requested one (for the
  variant: one of the comma-separated entries) up to case, restricted to the items whose period
  equals the requested period letter for letter, unless the period is absent or empty, is
  \<^verbatim>\<open>any\<close> letter for letter, or is \<^verbatim>\<open>any time\<close> up to case.
\<close>

theorem handlers_return_selection:
  assumes "unit_draws rnd"
  shows "(q_country req = Some c \<and> c \<noteq> [] \<longrightarrow>
            (\<exists>items. handler triviaData rnd req = (200, Items items)
                     \<and> mset items = mset (select_items triviaData [c] (q_period req))))
       \<and> (q_countries req = Some cs \<and> cs \<noteq> [] \<longrightarrow>
            (\<exists>items. handler_countries triviaData rnd req = (200, Items items)
                     \<and> mset items = mset (select_items triviaData (split_comma cs) (q_period req))))"
  using shuffleArray_mset[OF assms]
  by (auto simp: handler_select handler_countries_select)

theorem handlers_return_selection_witness:
  "unit_draws (\<lambda>k. 0)
   \<and> handler [usa_item, nigeria_item] (\<lambda>k. 0)
         \<lparr>q_country = Some ''usa'', q_countries = None, q_period = Some ''Any Time''\<rparr>
       = (200, Items [usa_item])
   \<and> select_items [usa_item, nigeria_item] [''usa''] (Some ''Any Time'') = [usa_item]
   \<and> handler_countries [usa_item, nigeria_item] (\<lambda>k. 0)
         \<lparr>q_country = None, q_countries = Some ''NIGERIA,usa'', q_period = Some ''1980-1999''\<rparr>
       = (200, Items [nigeria_item])
   \<and> select_items [usa_item, nigeria_item] (split_comma ''NIGERIA,usa'') (Some ''1980-1999'')
       = [nigeria_item]
   \<and> (\<exists>items. handler [usa_item, nigeria_item] (\<lambda>k. 0)
                    \<lparr>q_country = Some ''usa'', q_countries = None, q_period = Some ''Any Time''\<rparr>
                  = (200, Items items)
                \<and> mset items = mset (select_items [usa_item, nigeria_item] [''usa''] (Some ''Any Time'')))"
proof -
  have d: "unit_draws (\<lambda>k. 0)" by (simp add: unit_draws_def is_double01_0)
  have e1: "handler [usa_item, nigeria_item] (\<lambda>k. 0)
         \<lparr>q_country = Some ''usa'', q_countries = None, q_period = Some ''Any Time''\<rparr>
       = (200, Items [usa_item])" by code_simp
  have e2: "select_items [usa_item, nigeria_item] [''usa''] (Some ''Any Time'') = [usa_item]"
    by code_simp
  have e3: "handler_countries [usa_item, nigeria_item] (\<lambda>k. 0)
         \<lparr>q_country = None, q_countries = Some ''NIGERIA,usa'', q_period = Some ''1980-1999''\<rparr>
       = (200, Items [nigeria_item])" by code_simp
  have e4: "select_items [usa_item, nigeria_item] (split_comma ''NIGERIA,usa'') (Some ''1980-1999'')
       = [nigeria_item]" by code_simp
  have t: "\<exists>items. handler [usa_item, nigeria_item] (\<lambda>k. 0)
                    \<lparr>q_country = Some ''usa'', q_countries = None, q_period = Some ''Any Time''\<rparr>
                  = (200, Items items)
                \<and> mset items = mset (select_items [usa_item, nigeria_item] [''usa''] (Some ''Any Time''))"
    using handlers_return_selection[OF d, of
        "\<lparr>q_country = Some ''usa'', q_countries = None, q_period = Some ''Any Time''\<rparr>"
        "''usa''" "[usa_item, nigeria_item]"]
    by simp
  from d e1 e2 e3 e4 t show ?thesis by blast
qed

text \<open>
  Claim C4 as stated fails: with the period \<^verbatim>\<open>ANY\<close>, which is the sentinel \<^verbatim>\<open>any\<close> up
  to case, the claim selects every item of the country, while both handlers compare
  \<^verbatim>\<open>period !== 'any'\<close> letter for letter, filter by the period \<^verbatim>\<open>ANY\<close> and return nothing.
\<close>

theorem claimed_sentinel_counterexample:
  "handler [usa_item] (\<lambda>k. 0)
     \<lparr>q_country = Some ''usa'', q_countries = None, q_period = Some ''ANY''\<rparr>
     = (200, Items [])
   \<and> claimed_select [usa_item] [''usa''] (Some ''ANY'') = [usa_item]
   \<and> handler_countries [usa_item] (\<lambda>k. 0)
     \<lparr>q_country = None, q_countries = Some ''usa'', q_period = Some ''ANY''\<rparr>
     = (200, Items [])
   \<and> mset ([] :: TriviaItem list) \<noteq> mset (claimed_select [usa_item] [''usa''] (Some ''ANY''))"
proof -
  have e1: "handler [usa_item] (\<lambda>k. 0)
     \<lparr>q_country = Some ''usa'', q_countries = None, q_period = Some ''ANY''\<rparr>
     = (200, Items [])" by code_simp
  have e2: "claimed_select [usa_item] [''usa''] (Some ''ANY'') = [usa_item]" by code_simp
  have e3: "handler_countries [usa_item] (\<lambda>k. 0)
     \<lparr>q_country = None, q_countries = Some ''usa'', q_period = Some ''ANY''\<rparr>
     = (200, Items [])" by code_simp
  from e1 e2 e3 show ?thesis by simp
qed

text \<open>
  Claim C6, as amended. When the required parameter is missing (absent or empty), the handler
  for \<^verbatim>\<open>country\<close> answers 400 with the error \<^verbatim>\<open>Country parameter is required\<close>, the handler
  for \<^verbatim>\<open>countries\<close> answers 400 with the error \<^verbatim>\<open>Countries parameter is required\<close>, and
  neither answers 200.
\<close>

theorem missing_country_is_400:
  "(\<not> truthy (q_country req) \<longrightarrow>
      handler triviaData rnd req = (400, Error ''Country parameter is required'')
      \<and> fst (handler triviaData rnd req) \<noteq> 200)
   \<and> (\<not> truthy (q_countries req) \<longrightarrow>
      handler_countries triviaData rnd req = (400, Error ''Countries parameter is required'')
      \<and> fst (handler_countries triviaData rnd req) \<noteq> 200)"
  by (auto simp: truthy_def handler_def handler_countries_def split: option.splits)

theorem missing_country_is_400_witness:
  "\<not> truthy (q_country \<lparr>q_country = None, q_countries = Some [], q_period = Some ''any''\<rparr>)
   \<and> \<not> truthy (q_countries \<lparr>q_country = None, q_countries = Some [], q_period = Some ''any''\<rparr>)
   \<and> handler [usa_item] (\<lambda>k. 0) \<lparr>q_country = None, q_countries = Some [], q_period = Some ''any''\<rparr>
       = (400, Error ''Country parameter is required'')
   \<and> handler_countries [usa_item] (\<lambda>k. 0)
         \<lparr>q_country = None, q_countries = Some [], q_period = Some ''any''\<rparr>
       = (400, Error ''Countries parameter is required'')"
  using missing_country_is_400[of "\<lparr>q_country = None, q_countries = Some [], q_period = Some ''any''\<rparr>"
      "[usa_item]" "\<lambda>k. 0"]
  by (simp add: truthy_def)

text \<open>
  Claim C6 as stated fails for the second handler: its error body is not
  \<^verbatim>\<open>Country parameter is required\<close>.
\<close>

theorem countries_message_counterexample:
  "\<not> truthy (q_countries \<lparr>q_country = None, q_countries = None, q_period = None\<rparr>)
   \<and> handler_countries [usa_item] (\<lambda>k. 0) \<lparr>q_country = None, q_countries = None, q_period = None\<rparr>
       \<noteq> (400, Error ''Country parameter is required'')"
  by (simp add: truthy_def handler_countries_def)

section \<open>Properties of the playback\<close>

subsection \<open>Every event keeps a playback state well formed\<close>

lemma item_at_inv:
  "playing_inv s \<Longrightarrow> item_at (triviaItems s) (currentIndex s) = Some (triviaItems s ! nat (currentIndex s))"
  by (simp add: playing_inv_def item_at_def)








lemma screen_inv:
  "playing_inv s \<Longrightarrow> screen s = (if hasEnded s then FinishedScreen else PlayingScreen)"
  by (simp add: playing_inv_def screen_def)






subsection \<open>The timer alone ends the playback\<close>

lemma ticks_Suc: "ticks (Suc n) s = (case step s Tick of Inl x \<Rightarrow> Inl x | Inr s' \<Rightarrow> ticks n s')"
  unfolding ticks_def by simp

lemma ticks_0: "ticks 0 s = Inr s"
  by (simp add: ticks_def)






subsection \<open>The phases of a question\<close>

lemma run_append:
  "run s (es @ es') = (case run s es of Inl x \<Rightarrow> Inl x | Inr s' \<Rightarrow> run s' es')"
  by (induction es arbitrary: s) (simp_all split: sum.split)

lemma ticks_snoc:
  "ticks (Suc n) s = (case ticks n s of Inl x \<Rightarrow> Inl x | Inr s' \<Rightarrow> step s' Tick)"
proof -
  have "replicate (Suc n) Tick = replicate n Tick @ [Tick]"
    by (simp add: replicate_append_same)
  then show ?thesis unfolding ticks_def by (simp add: run_append split: sum.split)
qed

lemma step_Tick_decrement:
  assumes "playing_inv s" "timerRunning s" "1 < countdown s"
  shows "step s Tick = Inr (s\<lparr>countdown := countdown s - 1\<rparr>)"
  using assms(2,3) item_at_inv[OF assms(1)]
  by (simp add: step_def enabled_def dispatch_def tick_def speakQuestionEffect_def
      questionDeps_def render_def)

lemma ticks_decrement:
  "playing_inv s \<Longrightarrow> timerRunning s \<Longrightarrow> int n < countdown s \<Longrightarrow>
   ticks n s = Inr (s\<lparr>countdown := countdown s - int n\<rparr>)"
proof (induction n arbitrary: s)
  case 0
  then show ?case by (simp add: ticks_0)
next
  case (Suc n)
  let ?s = "s\<lparr>countdown := countdown s - 1\<rparr>"
  have s: "step s Tick = Inr ?s" using Suc.prems by (intro step_Tick_decrement) simp_all
  have "playing_inv ?s" "timerRunning ?s" "int n < countdown ?s"
    using Suc.prems by (simp_all add: timerRunning_def playing_inv_def)
  from Suc.IH[OF this] s show ?case by (simp add: ticks_Suc algebra_simps)
qed

lemma question_phase:
  assumes "playing_inv s" "timerRunning s" "\<not> showAnswer s" "countdown s = int (Suc n)"
  shows "\<exists>s'. ticks (Suc n) s = Inr s' \<and> playing_inv s' \<and> timerRunning s'
           \<and> triviaItems s' = triviaItems s \<and> currentIndex s' = currentIndex s
           \<and> showAnswer s' \<and> countdown s' = 6 \<and> \<not> hasEnded s'"
proof -
  let ?s = "s\<lparr>countdown := 1\<rparr>"
  have t: "ticks n s = Inr ?s" using ticks_decrement[of s n] assms(1,2,4) by simp
  from item_at_inv[OF assms(1)] obtain it where
    it: "item_at (triviaItems s) (currentIndex s) = Some it" by blast
  show ?thesis
    unfolding ticks_snoc t using assms(1,2,3) it
    by (simp add: step_def enabled_def dispatch_def tick_def speakQuestionEffect_def
        questionDeps_def speak_def playing_inv_def timerRunning_def render_def screen_def)
qed

lemma answer_phase:
  assumes "playing_inv s" "timerRunning s" "showAnswer s" "countdown s = int (Suc n)"
  shows "\<exists>s'. ticks (Suc n) s = Inr s' \<and> playing_inv s' \<and> triviaItems s' = triviaItems s
           \<and> (if currentIndex s < int (length (triviaItems s)) - 1
               then timerRunning s' \<and> currentIndex s' = currentIndex s + 1
                    \<and> \<not> showAnswer s' \<and> countdown s' = 8 \<and> \<not> hasEnded s'
               else hasEnded s')"
proof -
  let ?s = "s\<lparr>countdown := 1\<rparr>"
  have t: "ticks n s = Inr ?s" using ticks_decrement[of s n] assms(1,2,4) by simp
  show ?thesis
    unfolding ticks_snoc t using assms(1,2,3)
    by (simp add: step_def enabled_def dispatch_def tick_def speakQuestionEffect_def
        questionDeps_def speak_def playing_inv_def timerRunning_def item_at_def render_def
        screen_def)
qed

lemma two_item_example:
  assumes "triviaItems s0 = [a, b]" "currentIndex s0 = 0" "\<not> showAnswer s0" "countdown s0 = 8"
    "timerRunning s0"
  shows "\<exists>s1 s2 s3 s4.
           ticks 8 s0 = Inr s1 \<and> currentIndex s1 = 0 \<and> showAnswer s1 \<and> countdown s1 = 6
             \<and> \<not> hasEnded s1
         \<and> ticks 6 s1 = Inr s2 \<and> currentIndex s2 = 1 \<and> \<not> showAnswer s2 \<and> countdown s2 = 8
             \<and> \<not> hasEnded s2
         \<and> ticks 8 s2 = Inr s3 \<and> currentIndex s3 = 1 \<and> showAnswer s3 \<and> countdown s3 = 6
             \<and> \<not> hasEnded s3
         \<and> ticks 6 s3 = Inr s4 \<and> hasEnded s4"
proof -
  have i0: "playing_inv s0" using assms by (simp add: playing_inv_def timerRunning_def)
  from question_phase[OF i0 assms(5,3), of 7] assms(4) obtain s1 where
    s1: "ticks 8 s0 = Inr s1" "playing_inv s1" "timerRunning s1" "triviaItems s1 = triviaItems s0"
      "currentIndex s1 = currentIndex s0" "showAnswer s1" "countdown s1 = 6" "\<not> hasEnded s1"
    by auto
  from answer_phase[OF s1(2,3,6), of 5] s1(4,5,7) assms(1,2) obtain s2 where
    s2: "ticks 6 s1 = Inr s2" "playing_inv s2" "timerRunning s2" "triviaItems s2 = triviaItems s1"
      "currentIndex s2 = 1" "\<not> showAnswer s2" "countdown s2 = 8" "\<not> hasEnded s2"
    by auto
  from question_phase[OF s2(2,3,6), of 7] s2(7) obtain s3 where
    s3: "ticks 8 s2 = Inr s3" "playing_inv s3" "timerRunning s3" "triviaItems s3 = triviaItems s2"
      "currentIndex s3 = currentIndex s2" "showAnswer s3" "countdown s3 = 6" "\<not> hasEnded s3"
    by auto
  from answer_phase[OF s3(2,3,6), of 5] s3(4,5,7) s2(4,5) s1(4) assms(1) obtain s4 where
    s4: "ticks 6 s3 = Inr s4" "hasEnded s4"
    by auto
  from s1 s2 s3 s4 assms(2) show ?thesis by auto
qed

lemma tick_cases:
  assumes "playing_inv s" "timerRunning s"
  shows "\<exists>s'. tick s = Inr s'
           \<and> (if countdown s \<le> 1 \<and> \<not> showAnswer s
               then showAnswer s' \<and> countdown s' = 6 \<and> currentIndex s' = currentIndex s
                    \<and> \<not> hasEnded s'
               else if countdown s \<le> 1 \<and> currentIndex s < int (length (triviaItems s)) - 1
               then currentIndex s' = currentIndex s + 1 \<and> \<not> showAnswer s'
                    \<and> countdown s' = 8 \<and> \<not> hasEnded s'
               else countdown s' = countdown s - 1)
           \<and> (\<exists>s''. step s Tick = Inr s'' \<and> playback s'' = playback s')"
proof -
  from item_at_inv[OF assms(1)] obtain it where
    it: "item_at (triviaItems s) (currentIndex s) = Some it" by blast
  have en: "enabled s Tick" using assms(2) by (simp add: enabled_def)
  show ?thesis
    using assms it en
    by (auto simp: step_def dispatch_def tick_def speakQuestionEffect_def questionDeps_def
        speak_def playing_inv_def item_at_def timerRunning_def playback_def render_def
        screen_def)
qed

subsection \<open>Ticks and invariants\<close>

lemma sample_state_fresh: "fresh_start sample_state"
  by (simp add: fresh_start_def playing_inv_def sample_state_def)

lemma sample_state_inv: "playing_inv sample_state"
  using sample_state_fresh by (simp add: fresh_start_def)

lemma sample_state_running: "timerRunning sample_state"
  by (simp add: timerRunning_def sample_state_def)

text \<open>
  Claim C1. In every well-formed playback state in which the timer runs, one tick does the
  following. If the countdown expires (it is at most 1) while the question is shown, the answer
  is shown and the countdown is 6. If it expires while the answer is shown and a next item
  remains, the index is incremented, the answer is hidden and the countdown is 8. On any other
  tick the countdown decreases by exactly 1. The effect that follows the tick leaves these
  values as the tick set them. For a list of two items, from index 0 with the question shown
  and countdown 8: after 8 ticks the answer is shown with countdown 6, after 6 more the state
  is at index 1 with the question shown and countdown 8, after 8 more the answer is shown with
  countdown 6, and after 6 more \<open>hasEnded\<close> is true.
\<close>

theorem tick_transitions:
  "(playing_inv s \<and> timerRunning s \<longrightarrow>
      (\<exists>s'. tick s = Inr s'
         \<and> (if countdown s \<le> 1 \<and> \<not> showAnswer s
             then showAnswer s' \<and> countdown s' = 6 \<and> currentIndex s' = currentIndex s
                  \<and> \<not> hasEnded s'
             else if countdown s \<le> 1 \<and> currentIndex s < int (length (triviaItems s)) - 1
             then currentIndex s' = currentIndex s + 1 \<and> \<not> showAnswer s'
                  \<and> countdown s' = 8 \<and> \<not> hasEnded s'
             else countdown s' = countdown s - 1)
         \<and> (\<exists>s''. step s Tick = Inr s'' \<and> playback s'' = playback s')))
   \<and> (triviaItems s0 = [a, b] \<and> currentIndex s0 = 0 \<and> \<not> showAnswer s0 \<and> countdown s0 = 8
        \<and> timerRunning s0 \<longrightarrow>
      (\<exists>s1 s2 s3 s4.
           ticks 8 s0 = Inr s1 \<and> currentIndex s1 = 0 \<and> showAnswer s1 \<and> countdown s1 = 6
             \<and> \<not> hasEnded s1
         \<and> ticks 6 s1 = Inr s2 \<and> currentIndex s2 = 1 \<and> \<not> showAnswer s2 \<and> countdown s2 = 8
             \<and> \<not> hasEnded s2
         \<and> ticks 8 s2 = Inr s3 \<and> currentIndex s3 = 1 \<and> showAnswer s3 \<and> countdown s3 = 6
             \<and> \<not> hasEnded s3
         \<and> ticks 6 s3 = Inr s4 \<and> hasEnded s4))"
proof (intro conjI impI)
  assume "playing_inv s \<and> timerRunning s"
  then show "\<exists>s'. tick s = Inr s'
         \<and> (if countdown s \<le> 1 \<and> \<not> showAnswer s
             then showAnswer s' \<and> countdown s' = 6 \<and> currentIndex s' = currentIndex s
                  \<and> \<not> hasEnded s'
             else if countdown s \<le> 1 \<and> currentIndex s < int (length (triviaItems s)) - 1
             then currentIndex s' = currentIndex s + 1 \<and> \<not> showAnswer s'
                  \<and> countdown s' = 8 \<and> \<not> hasEnded s'
             else countdown s' = countdown s - 1)
         \<and> (\<exists>s''. step s Tick = Inr s'' \<and> playback s'' = playback s')"
    using tick_cases[of s] by blast
next
  assume "triviaItems s0 = [a, b] \<and> currentIndex s0 = 0 \<and> \<not> showAnswer s0 \<and> countdown s0 = 8
        \<and> timerRunning s0"
  then show "\<exists>s1 s2 s3 s4.
           ticks 8 s0 = Inr s1 \<and> currentIndex s1 = 0 \<and> showAnswer s1 \<and> countdown s1 = 6
             \<and> \<not> hasEnded s1
         \<and> ticks 6 s1 = Inr s2 \<and> currentIndex s2 = 1 \<and> \<not> showAnswer s2 \<and> countdown s2 = 8
             \<and> \<not> hasEnded s2
         \<and> ticks 8 s2 = Inr s3 \<and> currentIndex s3 = 1 \<and> showAnswer s3 \<and> countdown s3 = 6
             \<and> \<not> hasEnded s3
         \<and> ticks 6 s3 = Inr s4 \<and> hasEnded s4"
    using two_item_example[of s0 a b] by blast
qed

theorem tick_transitions_witness:
  "playing_inv sample_state \<and> timerRunning sample_state
   \<and> triviaItems sample_state = [usa_item, nigeria_item] \<and> currentIndex sample_state = 0
   \<and> \<not> showAnswer sample_state \<and> countdown sample_state = 8
   \<and> (\<exists>s'. tick sample_state = Inr s' \<and> countdown s' = 7)
   \<and> (\<exists>s1 s2 s3 s4.
           ticks 8 sample_state = Inr s1 \<and> currentIndex s1 = 0 \<and> showAnswer s1 \<and> countdown s1 = 6
         \<and> ticks 6 s1 = Inr s2 \<and> currentIndex s2 = 1 \<and> \<not> showAnswer s2 \<and> countdown s2 = 8
         \<and> ticks 8 s2 = Inr s3 \<and> currentIndex s3 = 1 \<and> showAnswer s3 \<and> countdown s3 = 6
         \<and> ticks 6 s3 = Inr s4 \<and> hasEnded s4)"
proof -
  have f: "triviaItems sample_state = [usa_item, nigeria_item]" "currentIndex sample_state = 0"
    "\<not> showAnswer sample_state" "countdown sample_state = 8"
    by (simp_all add: sample_state_def)
  note t = tick_transitions[of sample_state sample_state usa_item nigeria_item]
  from t sample_state_inv sample_state_running f
  have g: "\<exists>s'. tick sample_state = Inr s' \<and> countdown s' = 7" by auto
  from t sample_state_running f
  have e: "\<exists>s1 s2 s3 s4.
           ticks 8 sample_state = Inr s1 \<and> currentIndex s1 = 0 \<and> showAnswer s1 \<and> countdown s1 = 6
         \<and> ticks 6 s1 = Inr s2 \<and> currentIndex s2 = 1 \<and> \<not> showAnswer s2 \<and> countdown s2 = 8
         \<and> ticks 8 s2 = Inr s3 \<and> currentIndex s3 = 1 \<and> showAnswer s3 \<and> countdown s3 = 6
         \<and> ticks 6 s3 = Inr s4 \<and> hasEnded s4" by blast
  from sample_state_inv sample_state_running f g e show ?thesis by blast
qed





subsection \<open>Next, empty results, pause and count\<close>

lemma step_NextQuestion_playback:
  assumes "playing_inv s" "\<not> hasEnded s"
  shows "\<exists>s'. step s NextQuestion = Inr s' \<and> playback s' = playback (handleNextQuestion s)"
proof -
  have en: "enabled s NextQuestion" using assms by (simp add: enabled_def screen_inv)
  show ?thesis
    using assms en
    by (auto simp: step_def dispatch_def handleNextQuestion_def speakQuestionEffect_def
        questionDeps_def speak_def playing_inv_def item_at_def playback_def render_def
        screen_def)
qed

text \<open>
  Claim C8, as amended. In every well-formed state that has not ended: when the answer is
  shown and a next item remains, Next produces the playback state that the countdown-expiry
  transition produces (index incremented, answer hidden, countdown 8); when the question is
  shown and a next item remains, Next produces that same advanced state, skipping the answer;
  on the last item Next sets \<open>hasEnded\<close> and leaves every other field, the countdown included,
  as it was. The effect that follows Next leaves these values as Next set them.
\<close>

theorem next_versus_expiry:
  assumes "playing_inv s" "\<not> hasEnded s"
  shows "(showAnswer s \<and> currentIndex s < int (length (triviaItems s)) - 1 \<longrightarrow>
            (\<exists>s'. expiry s = Inr s' \<and> playback (handleNextQuestion s) = playback s'))
       \<and> (\<not> showAnswer s \<and> currentIndex s < int (length (triviaItems s)) - 1 \<longrightarrow>
            playback (handleNextQuestion s)
              = (triviaItems s, currentIndex s + 1, False, isPaused s, False, 8))
       \<and> (currentIndex s = int (length (triviaItems s)) - 1 \<longrightarrow>
            playback (handleNextQuestion s)
              = (triviaItems s, currentIndex s, showAnswer s, isPaused s, True, countdown s))
       \<and> (\<exists>s'. step s NextQuestion = Inr s' \<and> playback s' = playback (handleNextQuestion s))"
proof -
  have a: "showAnswer s \<and> currentIndex s < int (length (triviaItems s)) - 1 \<longrightarrow>
            (\<exists>s'. expiry s = Inr s' \<and> playback (handleNextQuestion s) = playback s')"
    by (simp add: expiry_def tick_def handleNextQuestion_def speak_def playback_def)
  have b: "\<not> showAnswer s \<and> currentIndex s < int (length (triviaItems s)) - 1 \<longrightarrow>
            playback (handleNextQuestion s)
              = (triviaItems s, currentIndex s + 1, False, isPaused s, False, 8)"
    using assms(2) by (simp add: handleNextQuestion_def speak_def playback_def)
  have c: "currentIndex s = int (length (triviaItems s)) - 1 \<longrightarrow>
            playback (handleNextQuestion s)
              = (triviaItems s, currentIndex s, showAnswer s, isPaused s, True, countdown s)"
    by (simp add: handleNextQuestion_def speak_def playback_def)
  from a b c step_NextQuestion_playback[OF assms] show ?thesis by blast
qed

theorem next_versus_expiry_witness:
  "playing_inv (sample_state\<lparr>showAnswer := True, countdown := 4\<rparr>)
   \<and> \<not> hasEnded (sample_state\<lparr>showAnswer := True, countdown := 4\<rparr>)
   \<and> showAnswer (sample_state\<lparr>showAnswer := True, countdown := 4\<rparr>)
   \<and> playback (handleNextQuestion (sample_state\<lparr>showAnswer := True, countdown := 4\<rparr>))
       = ([usa_item, nigeria_item], 1, False, False, False, 8)
   \<and> (\<exists>s'. expiry (sample_state\<lparr>showAnswer := True, countdown := 4\<rparr>) = Inr s'
          \<and> playback s' = ([usa_item, nigeria_item], 1, False, False, False, 8))"
proof -
  let ?s = "sample_state\<lparr>showAnswer := True, countdown := 4\<rparr>"
  have i: "playing_inv ?s" "\<not> hasEnded ?s" "showAnswer ?s"
    "currentIndex ?s < int (length (triviaItems ?s)) - 1"
    by (simp_all add: playing_inv_def sample_state_def)
  have n: "playback (handleNextQuestion ?s) = ([usa_item, nigeria_item], 1, False, False, False, 8)"
    by (simp add: handleNextQuestion_def speak_def playback_def sample_state_def)
  from next_versus_expiry[OF i(1,2)] i(3,4) n
  have e: "\<exists>s'. expiry ?s = Inr s'
          \<and> playback s' = ([usa_item, nigeria_item], 1, False, False, False, 8)" by auto
  from i(1,2,3) n e show ?thesis by blast
qed

text \<open>
  Claim C8 as stated fails while the question is shown: the countdown-expiry transition shows
  the answer of the same item with countdown 6, and Next moves to the next item with countdown
  8.
\<close>

theorem next_skips_answer_counterexample:
  "screen sample_state = PlayingScreen
   \<and> map_sum id playback (expiry sample_state)
       = Inr ([usa_item, nigeria_item], 0, True, False, False, 6)
   \<and> playback (handleNextQuestion sample_state)
       = ([usa_item, nigeria_item], 1, False, False, False, 8)
   \<and> map_sum id playback (step (sample_state\<lparr>countdown := 1\<rparr>) Tick)
       = Inr ([usa_item, nigeria_item], 0, True, False, False, 6)
   \<and> map_sum id playback (step (sample_state\<lparr>countdown := 1\<rparr>) NextQuestion)
       = Inr ([usa_item, nigeria_item], 1, False, False, False, 8)"
  by (simp add: screen_def sample_state_def expiry_def tick_def item_at_def speak_def
      playback_def handleNextQuestion_def step_def enabled_def timerRunning_def dispatch_def
      speakQuestionEffect_def questionDeps_def render_def)

lemma step_error_screen:
  assumes "error s \<noteq> []" "\<not> loading s"
  shows "step s e = Inr s"
  using assms by (cases e) (simp_all add: step_def enabled_def screen_def timerRunning_def)

lemma run_error_screen:
  "error s \<noteq> [] \<Longrightarrow> \<not> loading s \<Longrightarrow> run s es = Inr s"
  by (induction es) (simp_all add: step_error_screen)

lemma mount_empty:
  assumes "truthy qcountry" "truthy qperiod"
  shows "mount qcountry qperiod qcount (Response 200 (Items []))
       = Inr (initial\<lparr>loading := False, error := not_found_message,
                       spoken := [not_found_message]\<rparr>)"
  using assms
  by (simp add: mount_def fetchTrivia_def speak_def initial_def speakQuestionEffect_def
      questionDeps_def not_found_message_def render_def screen_def)

text \<open>
  Claim C9. When no item is selected, each handler answers 200 with an empty list of items.
  On such a response the playback screen sets the error to the not-found message and speaks
  it, leaves the items empty, and shows the error screen: the timer does not run, and no tick
  or button of the playing screen changes the state afterwards.
\<close>

theorem empty_result_not_error:
  "(q_country req = Some c \<and> c \<noteq> [] \<and> select_items triviaData [c] (q_period req) = [] \<longrightarrow>
      handler triviaData rnd req = (200, Items []))
   \<and> (q_countries req = Some cs \<and> cs \<noteq> []
        \<and> select_items triviaData (split_comma cs) (q_period req) = [] \<longrightarrow>
      handler_countries triviaData rnd req = (200, Items []))
   \<and> (truthy qcountry \<and> truthy qperiod \<longrightarrow>
      (\<exists>s. mount qcountry qperiod qcount (Response 200 (Items [])) = Inr s
          \<and> error s = not_found_message \<and> spoken s = [not_found_message]
          \<and> triviaItems s = [] \<and> \<not> loading s
          \<and> screen s = ErrorScreen \<and> \<not> timerRunning s
          \<and> (\<forall>es. run s es = Inr s)))"
proof (intro conjI impI)
  assume "q_country req = Some c \<and> c \<noteq> [] \<and> select_items triviaData [c] (q_period req) = []"
  then show "handler triviaData rnd req = (200, Items [])"
    by (simp add: handler_select shuffleArray_Nil)
next
  assume "q_countries req = Some cs \<and> cs \<noteq> []
        \<and> select_items triviaData (split_comma cs) (q_period req) = []"
  then show "handler_countries triviaData rnd req = (200, Items [])"
    by (simp add: handler_countries_select shuffleArray_Nil)
next
  assume t: "truthy qcountry \<and> truthy qperiod"
  let ?s = "initial\<lparr>loading := False, error := not_found_message,
                       spoken := [not_found_message]\<rparr>"
  have m: "mount qcountry qperiod qcount (Response 200 (Items [])) = Inr ?s"
    using t by (simp add: mount_empty)
  have e: "error ?s \<noteq> []" "\<not> loading ?s" by (simp_all add: not_found_message_def)
  have r: "\<forall>es. run ?s es = Inr ?s" using run_error_screen[OF e] by blast
  have f: "error ?s = not_found_message \<and> spoken ?s = [not_found_message]
          \<and> triviaItems ?s = [] \<and> \<not> loading ?s
          \<and> screen ?s = ErrorScreen \<and> \<not> timerRunning ?s"
    using e by (simp add: screen_def timerRunning_def initial_def)
  from m r f show "\<exists>s. mount qcountry qperiod qcount (Response 200 (Items [])) = Inr s
          \<and> error s = not_found_message \<and> spoken s = [not_found_message]
          \<and> triviaItems s = [] \<and> \<not> loading s
          \<and> screen s = ErrorScreen \<and> \<not> timerRunning s
          \<and> (\<forall>es. run s es = Inr s)" by blast
qed

theorem empty_result_not_error_witness:
  "select_items [usa_item] [''Ghana''] (Some ''any'') = []
   \<and> handler [usa_item] (\<lambda>k. 0)
        \<lparr>q_country = Some ''Ghana'', q_countries = None, q_period = Some ''any''\<rparr>
       = (200, Items [])
   \<and> truthy (Some ''Ghana'') \<and> truthy (Some ''any'')
   \<and> (\<exists>s. mount (Some ''Ghana'') (Some ''any'') (Some ''5'') (Response 200 (Items [])) = Inr s
          \<and> error s = not_found_message \<and> spoken s = [not_found_message]
          \<and> screen s = ErrorScreen
          \<and> run s [Tick, PausePlay, NextQuestion, Replay] = Inr s)"
proof -
  have e: "select_items [usa_item] [''Ghana''] (Some ''any'') = []" by code_simp
  have t: "truthy (Some ''Ghana'')" "truthy (Some ''any'')" by (simp_all add: truthy_def)
  note h = empty_result_not_error[of
      "\<lparr>q_country = Some ''Ghana'', q_countries = None, q_period = Some ''any''\<rparr>" "''Ghana''"
      "[usa_item]" "\<lambda>k. 0" "''x''" "Some ''Ghana''" "Some ''any''" "Some ''5''"]
  from h e have a: "handler [usa_item] (\<lambda>k. 0)
        \<lparr>q_country = Some ''Ghana'', q_countries = None, q_period = Some ''any''\<rparr>
       = (200, Items [])" by simp
  from h t have b: "\<exists>s. mount (Some ''Ghana'') (Some ''any'') (Some ''5'') (Response 200 (Items [])) = Inr s
          \<and> error s = not_found_message \<and> spoken s = [not_found_message]
          \<and> screen s = ErrorScreen
          \<and> run s [Tick, PausePlay, NextQuestion, Replay] = Inr s" by blast
  from e a t b show ?thesis by blast
qed

text \<open>
  Claim C2 on the code. Three ticks take the countdown from 8 to 5; while paused, ticks leave
  countdown, index and \<open>showAnswer\<close> as they are; on resume, with the question shown, the
  question effect runs again because \<open>isPaused\<close> is one of its dependencies, and the
  countdown is 8 and not 5.
\<close>

theorem resume_resets_countdown:
  "map_sum id playback (run sample_state [Tick, Tick, Tick, PausePlay])
     = Inr ([usa_item, nigeria_item], 0, False, True, False, 5)
   \<and> map_sum id playback (run sample_state [Tick, Tick, Tick, PausePlay, Tick, Tick])
     = Inr ([usa_item, nigeria_item], 0, False, True, False, 5)
   \<and> map_sum id playback (run sample_state [Tick, Tick, Tick, PausePlay, Tick, Tick, PausePlay])
     = Inr ([usa_item, nigeria_item], 0, False, False, False, 8)"
  by code_simp

text \<open>
  Claim C7 on the code. For the count \<^verbatim>\<open>abc\<close>, \<^verbatim>\<open>parseInt\<close> yields \<^verbatim>\<open>NaN\<close>, the slice is
  empty and no item is played, although two were fetched: the items are empty, no error is
  set, and the playing screen throws when it is rendered. An absent count gives the default
  10, and the count 1 gives one item.
\<close>

theorem unparseable_count_plays_nothing:
  "parseInt ''abc'' = None
   \<and> triviaItems (fetchTrivia ''USA'' (Some ''abc'')
                   (Response 200 (Items [usa_item, nigeria_item])) initial) = []
   \<and> error (fetchTrivia ''USA'' (Some ''abc'')
                   (Response 200 (Items [usa_item, nigeria_item])) initial) = []
   \<and> mount (Some ''USA'') (Some ''any'') (Some ''abc'')
          (Response 200 (Items [usa_item, nigeria_item]))
     = Inl TypeError
   \<and> map_sum id triviaItems
       (mount (Some ''USA'') (Some ''any'') None
          (Response 200 (Items [usa_item, nigeria_item])))
     = Inr [usa_item, nigeria_item]
   \<and> map_sum id triviaItems
       (mount (Some ''USA'') (Some ''any'') (Some ''1'')
          (Response 200 (Items [usa_item, nigeria_item])))
     = Inr [usa_item]"
  by code_simp

theorem unparseable_count_plays_nothing_witness:
  "truthy (Some ''USA'') \<and> truthy (Some ''any'')
   \<and> parseInt ''abc'' = None
   \<and> triviaItems (fetchTrivia ''USA'' (Some ''abc'')
                   (Response 200 (Items [usa_item, nigeria_item])) initial) = []
   \<and> mount (Some ''USA'') (Some ''any'') (Some ''abc'')
          (Response 200 (Items [usa_item, nigeria_item]))
     = Inl TypeError"
  using unparseable_count_plays_nothing by (simp add: truthy_def)

subsection \<open>Pause and count: what holds beside the two defects\<close>

text \<open>
  While \<open>isPaused\<close> is true no tick occurs: any number of timer periods leaves the whole
  state, and so countdown, index and \<open>showAnswer\<close>, as it is.
\<close>

lemma paused_ticks_frozen: "isPaused s \<Longrightarrow> ticks n s = Inr s"
  unfolding ticks_def
  by (induction n) (simp_all add: step_def enabled_def timerRunning_def)

text \<open>
  Resuming while the answer is shown continues the countdown from the value it had when
  paused.
\<close>

lemma resume_keeps_countdown_when_answer_shown:
  assumes "playing_inv s" "isPaused s" "showAnswer s" "\<not> hasEnded s"
  shows "\<exists>s'. step s PausePlay = Inr s' \<and> \<not> isPaused s' \<and> countdown s' = countdown s
           \<and> currentIndex s' = currentIndex s \<and> showAnswer s'"
  using assms item_at_inv[OF assms(1)]
  by (simp add: step_def enabled_def dispatch_def handlePausePlay_def speak_def
      speakQuestionEffect_def questionDeps_def screen_inv render_def screen_def
      playing_inv_def)

text \<open>Resuming while the question is shown restarts the countdown at 8.\<close>

lemma resume_resets_when_question_shown:
  assumes "playing_inv s" "isPaused s" "\<not> showAnswer s" "\<not> hasEnded s"
  shows "\<exists>s'. step s PausePlay = Inr s' \<and> \<not> isPaused s' \<and> countdown s' = 8"
  using assms item_at_inv[OF assms(1)]
  by (simp add: step_def enabled_def dispatch_def handlePausePlay_def speak_def
      speakQuestionEffect_def questionDeps_def screen_inv playing_inv_def render_def
      screen_def)

text \<open>
  For a count that parses to \<open>n \<ge> 1\<close> the playback holds the first \<open>min n (length items)\<close>
  fetched items.
\<close>

lemma count_caps_items:
  assumes "truthy qcountry" "truthy qperiod" "qcount = Some c" "c \<noteq> []" "parseInt c = Some n"
    "0 < n" "items \<noteq> []"
  shows "\<exists>s. mount qcountry qperiod qcount (Response 200 (Items items)) = Inr s
           \<and> triviaItems s = take (nat n) items
           \<and> length (triviaItems s) = min (nat n) (length items)"
proof -
  have ne: "take (nat n) items \<noteq> []" using assms(6,7) by (cases items) simp_all
  then have "item_at (take (nat n) items) 0 = Some (take (nat n) items ! 0)"
    by (simp add: item_at_def)
  with assms ne show ?thesis
    by (simp add: mount_def fetchTrivia_def speak_def initial_def speakQuestionEffect_def
        questionDeps_def truthy_def slice0_def Let_def render_def screen_def)
qed

text \<open>An absent count gives at most 10 items.\<close>

lemma absent_count_defaults_to_10:
  assumes "truthy qcountry" "truthy qperiod" "items \<noteq> []"
  shows "\<exists>s. mount qcountry qperiod None (Response 200 (Items items)) = Inr s
           \<and> triviaItems s = take 10 items"
proof -
  have "take 10 items \<noteq> []" using assms(3) by (cases items) simp_all
  then have "item_at (take 10 items) 0 = Some (take 10 items ! 0)"
    by (simp add: item_at_def)
  with assms \<open>take 10 items \<noteq> []\<close> show ?thesis
    by (simp add: mount_def fetchTrivia_def speak_def initial_def speakQuestionEffect_def
        questionDeps_def truthy_def slice0_def Let_def render_def screen_def)
qed

theorem paused_ticks_frozen_witness:
  "isPaused (sample_state\<lparr>isPaused := True, countdown := 5\<rparr>)
   \<and> ticks 3 (sample_state\<lparr>isPaused := True, countdown := 5\<rparr>)
       = Inr (sample_state\<lparr>isPaused := True, countdown := 5\<rparr>)"
  using paused_ticks_frozen[of "sample_state\<lparr>isPaused := True, countdown := 5\<rparr>" 3]
  by simp

theorem resume_keeps_countdown_when_answer_shown_witness:
  "playing_inv (sample_state\<lparr>isPaused := True, showAnswer := True, countdown := 4\<rparr>)
   \<and> (\<exists>s'. step (sample_state\<lparr>isPaused := True, showAnswer := True, countdown := 4\<rparr>) PausePlay
              = Inr s'
          \<and> \<not> isPaused s' \<and> countdown s' = 4 \<and> currentIndex s' = 0 \<and> showAnswer s')"
proof -
  let ?s = "sample_state\<lparr>isPaused := True, showAnswer := True, countdown := 4\<rparr>"
  have i: "playing_inv ?s" "isPaused ?s" "showAnswer ?s" "\<not> hasEnded ?s"
    by (simp_all add: playing_inv_def sample_state_def)
  have f: "countdown ?s = 4" "currentIndex ?s = 0" by (simp_all add: sample_state_def)
  from resume_keeps_countdown_when_answer_shown[OF i] f
  have "\<exists>s'. step ?s PausePlay = Inr s'
          \<and> \<not> isPaused s' \<and> countdown s' = 4 \<and> currentIndex s' = 0 \<and> showAnswer s'"
    by simp
  with i(1) show ?thesis by blast
qed

theorem count_caps_items_witness:
  "truthy (Some ''USA'') \<and> truthy (Some ''any'') \<and> parseInt ''1'' = Some 1
   \<and> (\<exists>s. mount (Some ''USA'') (Some ''any'') (Some ''1'')
             (Response 200 (Items [usa_item, nigeria_item])) = Inr s
          \<and> triviaItems s = [usa_item] \<and> length (triviaItems s) = 1)"
proof -
  have t: "truthy (Some ''USA'')" "truthy (Some ''any'')" by (simp_all add: truthy_def)
  have p: "parseInt ''1'' = Some 1" by code_simp
  from count_caps_items[OF t refl _ p, of "[usa_item, nigeria_item]"]
  have "\<exists>s. mount (Some ''USA'') (Some ''any'') (Some ''1'')
             (Response 200 (Items [usa_item, nigeria_item])) = Inr s
          \<and> triviaItems s = [usa_item] \<and> length (triviaItems s) = 1"
    by simp
  with t p show ?thesis by blast
qed

text \<open>
  Replay on the finished screen resets the playback: index 0, answer hidden, not paused, not
  ended, countdown 8.
\<close>

theorem replay_resets:
  assumes "playing_inv s" "hasEnded s"
  shows "\<exists>s'. step s Replay = Inr s'
           \<and> playback s' = (triviaItems s, 0, False, False, False, 8)
           \<and> fresh_start s'"
proof -
  have en: "enabled s Replay" using assms by (simp add: enabled_def screen_inv)
  have "item_at (triviaItems s) 0 = Some (triviaItems s ! 0)"
    using assms(1) by (simp add: item_at_def playing_inv_def)
  with assms en show ?thesis
    by (simp add: step_def dispatch_def handleReplay_def speak_def speakQuestionEffect_def
        questionDeps_def render_def screen_def playback_def fresh_start_def playing_inv_def)
qed

theorem replay_resets_witness:
  "playing_inv (sample_state\<lparr>currentIndex := 1, showAnswer := True, hasEnded := True, countdown := 0\<rparr>)
   \<and> hasEnded (sample_state\<lparr>currentIndex := 1, showAnswer := True, hasEnded := True, countdown := 0\<rparr>)
   \<and> (\<exists>s'. step (sample_state\<lparr>currentIndex := 1, showAnswer := True, hasEnded := True,
                                countdown := 0\<rparr>) Replay = Inr s'
          \<and> playback s' = ([usa_item, nigeria_item], 0, False, False, False, 8))"
proof -
  let ?s = "sample_state\<lparr>currentIndex := 1, showAnswer := True, hasEnded := True, countdown := 0\<rparr>"
  have i: "playing_inv ?s" "hasEnded ?s" by (simp_all add: playing_inv_def sample_state_def)
  have f: "triviaItems ?s = [usa_item, nigeria_item]" by (simp add: sample_state_def)
  from replay_resets[OF i] f
  have "\<exists>s'. step ?s Replay = Inr s'
          \<and> playback s' = ([usa_item, nigeria_item], 0, False, False, False, 8)" by auto
  with i show ?thesis by blast
qed

end
